theory Spec2Isabelle
  imports Main
begin

section \<open>The sort-by pill of the folder view\<close>

text \<open>
  A shallow embedding of \<^verbatim>\<open>packages/ui/src/elements/FolderView/SortByPill/index.tsx\<close>.
  The component reads the sort descriptor \<^verbatim>\<open>sort\<close> and the mutator
  \<^verbatim>\<open>refineFolderData\<close> from the folder context, the translation function \<^verbatim>\<open>t\<close> from
  the translation context, and receives \<^verbatim>\<open>close\<close> from the popup. All four are
  parameters of the model. The collaborators \<^verbatim>\<open>refineFolderData\<close> and \<^verbatim>\<open>close\<close> act on
  an arbitrary world \<open>'w\<close>, so a click handler is a function from worlds to worlds.

  A descriptor is a \<open>string\<close>. The only characters the component inspects are the
  leading \<^verbatim>\<open>-\<close>, which is one unit in every encoding, so \<^verbatim>\<open>startsWith('-')\<close> and
  \<^verbatim>\<open>slice(1)\<close> behind it act on the first list element.
\<close>

subsection \<open>Data\<close>

text \<open>The literal union \<^verbatim>\<open>'asc' | 'desc'\<close>.\<close>

datatype order_value = Asc | Desc

text \<open>The string an order value is at run time (used as the React key).\<close>

fun order_string :: "order_value \<Rightarrow> string" where
  "order_string Asc = ''asc''"
| "order_string Desc = ''desc''"

text \<open>Icons, with their optional \<^verbatim>\<open>className\<close>, and the nodes the labels produce.\<close>

datatype icon = ChevronIcon | SortUpIcon "string option" | SortDownIcon "string option"

datatype node = Text string | Icon icon | Fragment "node list"

text \<open>
  An entry of \<^verbatim>\<open>sortOnOptions\<close> or \<^verbatim>\<open>orderOnOptions\<close>: the object
  \<^verbatim>\<open>{ label, value }\<close>, with the type of \<^verbatim>\<open>value\<close> as parameter.
\<close>

record 'v menu_option =
  label :: "(string \<Rightarrow> string) \<Rightarrow> node"
  option_value :: 'v

text \<open>The argument of \<^verbatim>\<open>refineFolderData\<close>.\<close>

record query =
  query_sort :: string

record refine_options =
  query :: query
  updateURL :: bool

text \<open>Reading a property of \<^verbatim>\<open>undefined\<close> throws a \<^verbatim>\<open>TypeError\<close>.\<close>

datatype error = TypeError

text \<open>The elements the component builds.\<close>

record 'w popup_button =
  active :: bool
  button_className :: "string option"
  key :: string
  onClick :: "'w \<Rightarrow> 'w"
  children :: node

datatype 'w popup_item =
  GroupLabel string
| ButtonGroup "'w popup_button list"
| Divider

record pill =
  pill_className :: string
  pill_icon :: node
  pill_size :: string
  pill_children :: "node list"

record 'w popup =
  button :: pill
  popup_className :: string
  horizontalAlign :: string
  render :: "('w \<Rightarrow> 'w) \<Rightarrow> error + 'w popup_item list"
  showScrollbar :: bool
  verticalAlign :: string

subsection \<open>String and array primitives\<close>

text \<open>\<^verbatim>\<open>s.startsWith(p)\<close>: the first \<open>length p\<close> units of \<open>s\<close> are \<open>p\<close>.\<close>

definition startsWith :: "string \<Rightarrow> string \<Rightarrow> bool" where
  "startsWith s p = (take (length p) s = p)"

text \<open>\<^verbatim>\<open>s.slice(n)\<close> for a non-negative \<open>n\<close>: the units from index \<open>n\<close> on.\<close>

definition slice :: "string \<Rightarrow> nat \<Rightarrow> string" where
  "slice s n = drop n s"

text \<open>
  The destructuring \<^verbatim>\<open>const [x] = xs\<close>: the first element, or \<^verbatim>\<open>undefined\<close>
  (here \<open>None\<close>) when the array is empty.
\<close>

definition first_element :: "'a list \<Rightarrow> 'a option" where
  "first_element xs = (case xs of [] \<Rightarrow> None | x # _ \<Rightarrow> Some x)"

text \<open>A property access \<^verbatim>\<open>x.p\<close> on a value that may be \<^verbatim>\<open>undefined\<close>.\<close>

definition property :: "'a option \<Rightarrow> ('a \<Rightarrow> 'b) \<Rightarrow> error + 'b" where
  "property x p = (case x of None \<Rightarrow> Inl TypeError | Some v \<Rightarrow> Inr (p v))"

text \<open>\<^verbatim>\<open>xs.map(f)\<close> where \<open>f\<close> may throw: the first exception ends the loop.\<close>

fun map_throwing :: "('a \<Rightarrow> error + 'b) \<Rightarrow> 'a list \<Rightarrow> error + 'b list" where
  "map_throwing f [] = Inr []"
| "map_throwing f (x # xs) =
     (case f x of
        Inl e \<Rightarrow> Inl e
      | Inr y \<Rightarrow> (case map_throwing f xs of Inl e \<Rightarrow> Inl e | Inr ys \<Rightarrow> Inr (y # ys)))"

subsection \<open>Module constants\<close>

definition baseClass :: string where
  "baseClass = ''sort-by-pill''"

definition sortOnOptions :: "string menu_option list" where
  "sortOnOptions =
     [\<lparr>label = (\<lambda>t. Text (t ''general:name'')), option_value = ''_folderOrDocumentTitle''\<rparr>,
      \<lparr>label = (\<lambda>t. Text (t ''general:createdAt'')), option_value = ''createdAt''\<rparr>,
      \<lparr>label = (\<lambda>t. Text (t ''general:updatedAt'')), option_value = ''updatedAt''\<rparr>]"

definition orderOnOptions :: "order_value menu_option list" where
  "orderOnOptions =
     [\<lparr>label = (\<lambda>t. Fragment [Icon (SortUpIcon None), Text (t ''general:ascending'')]),
       option_value = Asc\<rparr>,
      \<lparr>label = (\<lambda>t. Fragment [Icon (SortDownIcon None), Text (t ''general:descending'')]),
       option_value = Desc\<rparr>]"

subsection \<open>Derived selection (lines 50 to 54)\<close>

definition sortDirection :: "string \<Rightarrow> order_value" where
  "sortDirection sort' = (if startsWith sort' ''-'' then Desc else Asc)"

text \<open>
  The expression \<^verbatim>\<open>sort.startsWith('-') ? sort.slice(1) : sort\<close> that the filter of
  line 52 compares every option with.
\<close>

definition fieldKey :: "string \<Rightarrow> string" where
  "fieldKey sort' = (if startsWith sort' ''-'' then slice sort' 1 else sort')"

definition selectedSortOption :: "string \<Rightarrow> string menu_option option" where
  "selectedSortOption sort' =
     first_element (filter (\<lambda>opt. option_value opt = fieldKey sort') sortOnOptions)"

definition selectedOrderOption :: "string \<Rightarrow> order_value menu_option option" where
  "selectedOrderOption sort' =
     first_element (filter (\<lambda>opt. option_value opt = sortDirection sort') orderOnOptions)"

subsection \<open>Click handlers\<close>

text \<open>The handler of a field button (lines 78 to 86), for the option value \<open>v\<close>.\<close>

definition sort_onClick ::
  "(refine_options \<Rightarrow> 'w \<Rightarrow> 'w) \<Rightarrow> ('w \<Rightarrow> 'w) \<Rightarrow> string \<Rightarrow> 'w \<Rightarrow> 'w" where
  "sort_onClick refineFolderData close v w =
     close (refineFolderData \<lparr>query = \<lparr>query_sort = v\<rparr>, updateURL = True\<rparr> w)"

text \<open>The handler of a direction button (lines 100 to 110), for the option value \<open>v\<close>.\<close>

definition order_onClick ::
  "(refine_options \<Rightarrow> 'w \<Rightarrow> 'w) \<Rightarrow> ('w \<Rightarrow> 'w) \<Rightarrow> string \<Rightarrow> order_value \<Rightarrow> 'w \<Rightarrow> 'w" where
  "order_onClick refineFolderData close sort' v w =
     close
       (if v = Asc
        then refineFolderData
               \<lparr>query = \<lparr>query_sort = (if v = Asc then ''-'' @ sort' else sort')\<rparr>,
                updateURL = True\<rparr> w
        else w)"

subsection \<open>Rendering\<close>

text \<open>The button of one field option (lines 75 to 89).\<close>

definition sort_button ::
  "(refine_options \<Rightarrow> 'w \<Rightarrow> 'w) \<Rightarrow> ('w \<Rightarrow> 'w) \<Rightarrow> (string \<Rightarrow> string) \<Rightarrow>
   string menu_option option \<Rightarrow> string menu_option \<Rightarrow> error + 'w popup_button" where
  "sort_button refineFolderData close t selected opt =
     (case property selected option_value of
        Inl e \<Rightarrow> Inl e
      | Inr sv \<Rightarrow>
          Inr \<lparr>active = (sv = option_value opt),
               button_className = None,
               key = option_value opt,
               onClick = sort_onClick refineFolderData close (option_value opt),
               children = label opt t\<rparr>)"

text \<open>The button of one direction option (lines 96 to 113).\<close>

definition order_button ::
  "(refine_options \<Rightarrow> 'w \<Rightarrow> 'w) \<Rightarrow> ('w \<Rightarrow> 'w) \<Rightarrow> (string \<Rightarrow> string) \<Rightarrow> string \<Rightarrow>
   order_value menu_option option \<Rightarrow> order_value menu_option \<Rightarrow> error + 'w popup_button" where
  "order_button refineFolderData close t sort' selected opt =
     (case property selected option_value of
        Inl e \<Rightarrow> Inl e
      | Inr sv \<Rightarrow>
          Inr \<lparr>active = (sv = option_value opt),
               button_className = Some (baseClass @ ''__order-option''),
               key = order_string (option_value opt),
               onClick = order_onClick refineFolderData close sort' (option_value opt),
               children = label opt t\<rparr>)"

text \<open>The render prop of the popup (lines 70 to 117).\<close>

definition render_menu ::
  "(refine_options \<Rightarrow> 'w \<Rightarrow> 'w) \<Rightarrow> string \<Rightarrow> (string \<Rightarrow> string) \<Rightarrow> ('w \<Rightarrow> 'w) \<Rightarrow>
   error + 'w popup_item list" where
  "render_menu refineFolderData sort' t close =
     (case map_throwing (sort_button refineFolderData close t (selectedSortOption sort'))
             sortOnOptions of
        Inl e \<Rightarrow> Inl e
      | Inr sortButtons \<Rightarrow>
          (case map_throwing
                  (order_button refineFolderData close t sort' (selectedOrderOption sort'))
                  orderOnOptions of
             Inl e \<Rightarrow> Inl e
           | Inr orderButtons \<Rightarrow>
               Inr [GroupLabel ''Sort by'', ButtonGroup sortButtons, Divider,
                    GroupLabel ''Order'', ButtonGroup orderButtons]))"

text \<open>
  The component (lines 47 to 122). The children of the trigger pill are evaluated while
  the element is built, so \<^verbatim>\<open>selectedSortOption.label(t)\<close> of line 65 throws before
  anything is returned when the lookup found no option.
\<close>

definition SortByPill ::
  "(refine_options \<Rightarrow> 'w \<Rightarrow> 'w) \<Rightarrow> string \<Rightarrow> (string \<Rightarrow> string) \<Rightarrow> error + 'w popup" where
  "SortByPill refineFolderData sort' t =
     (case property (selectedSortOption sort') label of
        Inl e \<Rightarrow> Inl e
      | Inr selectedLabel \<Rightarrow>
          Inr \<lparr>button =
                 \<lparr>pill_className = baseClass @ ''__trigger'',
                  pill_icon = Icon ChevronIcon,
                  pill_size = ''small'',
                  pill_children =
                    [if sortDirection sort' = Asc
                     then Icon (SortUpIcon (Some (baseClass @ ''__sort-icon'')))
                     else Icon (SortDownIcon (Some (baseClass @ ''__sort-icon''))),
                     selectedLabel t]\<rparr>,
               popup_className = baseClass,
               horizontalAlign = ''right'',
               render = render_menu refineFolderData sort' t,
               showScrollbar = True,
               verticalAlign = ''bottom''\<rparr>)"

subsection \<open>Observing the calls\<close>

text \<open>
  To speak about which collaborator calls a click makes, the handlers are run with
  collaborators that only append the call to a log.
\<close>

datatype call = RefineFolderData refine_options | Close

definition log_refineFolderData :: "refine_options \<Rightarrow> call list \<Rightarrow> call list" where
  "log_refineFolderData opts calls = calls @ [RefineFolderData opts]"

definition log_close :: "call list \<Rightarrow> call list" where
  "log_close calls = calls @ [Close]"

text \<open>All buttons of a rendered menu, in document order.\<close>

fun buttons_of :: "'w popup_item list \<Rightarrow> 'w popup_button list" where
  "buttons_of [] = []"
| "buttons_of (ButtonGroup bs # items) = bs @ buttons_of items"
| "buttons_of (_ # items) = buttons_of items"

text \<open>
  Mounting the component and opening its popup with the callback \<open>close\<close>: the buttons
  the user can click, or the exception that ended the rendering.
\<close>

definition menu_buttons ::
  "(refine_options \<Rightarrow> 'w \<Rightarrow> 'w) \<Rightarrow> ('w \<Rightarrow> 'w) \<Rightarrow> string \<Rightarrow> (string \<Rightarrow> string) \<Rightarrow>
   error + 'w popup_button list" where
  "menu_buttons refineFolderData close sort' t =
     (case SortByPill refineFolderData sort' t of
        Inl e \<Rightarrow> Inl e
      | Inr p \<Rightarrow>
          (case render p close of Inl e \<Rightarrow> Inl e | Inr items \<Rightarrow> Inr (buttons_of items)))"

section \<open>What the component renders\<close>

lemma selectedSortOption_cases:
  "selectedSortOption sort' =
     (if fieldKey sort' = ''_folderOrDocumentTitle'' then Some (sortOnOptions ! 0)
      else if fieldKey sort' = ''createdAt'' then Some (sortOnOptions ! 1)
      else if fieldKey sort' = ''updatedAt'' then Some (sortOnOptions ! 2)
      else None)"
  by (simp add: selectedSortOption_def sortOnOptions_def first_element_def)

lemma selectedSortOption_value:
  "selectedSortOption sort' = Some s \<Longrightarrow> option_value s = fieldKey sort'"
  by (auto simp: selectedSortOption_cases sortOnOptions_def split: if_splits)

lemma selectedSortOption_None_iff:
  "selectedSortOption sort' = None \<longleftrightarrow> fieldKey sort' \<notin> option_value ` set sortOnOptions"
  by (simp add: selectedSortOption_cases) (simp add: sortOnOptions_def)

lemma selectedOrderOption_eq:
  "selectedOrderOption sort' =
     Some (if sortDirection sort' = Asc then orderOnOptions ! 0 else orderOnOptions ! 1)"
  by (cases "sortDirection sort'")
     (simp_all add: selectedOrderOption_def orderOnOptions_def first_element_def)

lemma SortByPill_error:
  "selectedSortOption sort' = None \<Longrightarrow> SortByPill r sort' t = Inl TypeError"
  by (simp add: SortByPill_def property_def)

lemma menu_buttons_error:
  "selectedSortOption sort' = None \<Longrightarrow> menu_buttons r c sort' t = Inl TypeError"
  by (simp add: menu_buttons_def SortByPill_error)

lemma menu_buttons_rendered:
  assumes "selectedSortOption sort' = Some s"
  shows "menu_buttons r c sort' t = Inr
     [\<lparr>active = (fieldKey sort' = ''_folderOrDocumentTitle''), button_className = None,
       key = ''_folderOrDocumentTitle'', onClick = sort_onClick r c ''_folderOrDocumentTitle'',
       children = Text (t ''general:name'')\<rparr>,
      \<lparr>active = (fieldKey sort' = ''createdAt''), button_className = None,
       key = ''createdAt'', onClick = sort_onClick r c ''createdAt'',
       children = Text (t ''general:createdAt'')\<rparr>,
      \<lparr>active = (fieldKey sort' = ''updatedAt''), button_className = None,
       key = ''updatedAt'', onClick = sort_onClick r c ''updatedAt'',
       children = Text (t ''general:updatedAt'')\<rparr>,
      \<lparr>active = (sortDirection sort' = Asc),
       button_className = Some ''sort-by-pill__order-option'',
       key = ''asc'', onClick = order_onClick r c sort' Asc,
       children = Fragment [Icon (SortUpIcon None), Text (t ''general:ascending'')]\<rparr>,
      \<lparr>active = (sortDirection sort' = Desc),
       button_className = Some ''sort-by-pill__order-option'',
       key = ''desc'', onClick = order_onClick r c sort' Desc,
       children = Fragment [Icon (SortDownIcon None), Text (t ''general:descending'')]\<rparr>]"
proof -
  have v: "option_value s = fieldKey sort'"
    using assms by (rule selectedSortOption_value)
  show ?thesis
    using assms v
    by (cases "sortDirection sort'")
       (simp_all add: menu_buttons_def SortByPill_def render_menu_def property_def
          sort_button_def order_button_def selectedOrderOption_eq sortOnOptions_def
          orderOnOptions_def baseClass_def)
qed

lemma menu_buttons_Inr_selected:
  "menu_buttons r c sort' t = Inr bs \<Longrightarrow> \<exists>s. selectedSortOption sort' = Some s"
  by (cases "selectedSortOption sort'") (simp_all add: menu_buttons_error)

lemma selectedSortOption_createdAt:
  "selectedSortOption ''createdAt'' = Some (sortOnOptions ! 1)"
  by (simp add: selectedSortOption_cases fieldKey_def startsWith_def)

lemma selectedSortOption_desc_createdAt:
  "selectedSortOption ''-createdAt'' = Some (sortOnOptions ! 1)"
  by (simp add: selectedSortOption_cases fieldKey_def startsWith_def slice_def)

lemma menu_buttons_keys:
  assumes "menu_buttons r c sort' t = Inr bs"
  shows "map key bs = [''_folderOrDocumentTitle'', ''createdAt'', ''updatedAt'', ''asc'', ''desc'']"
proof -
  obtain s where "selectedSortOption sort' = Some s"
    using assms menu_buttons_Inr_selected by blast
  from menu_buttons_rendered [OF this, of r c t] assms show ?thesis
    by auto
qed

lemma menu_buttons_handlers:
  assumes "menu_buttons r c sort' t = Inr bs" and "b \<in> set bs"
  shows "key b \<in> option_value ` set sortOnOptions \<and> onClick b = sort_onClick r c (key b) \<or>
         key b = ''asc'' \<and> onClick b = order_onClick r c sort' Asc \<or>
         key b = ''desc'' \<and> onClick b = order_onClick r c sort' Desc"
proof -
  obtain s where "selectedSortOption sort' = Some s"
    using assms(1) menu_buttons_Inr_selected by blast
  from menu_buttons_rendered [OF this, of r c t] assms show ?thesis
    by (auto simp: sortOnOptions_def)
qed

lemma menu_buttons_handler_of_key:
  assumes "menu_buttons r c sort' t = Inr bs" and "b \<in> set bs"
  shows "key b = ''asc'' \<Longrightarrow> onClick b = order_onClick r c sort' Asc"
    and "key b = ''desc'' \<Longrightarrow> onClick b = order_onClick r c sort' Desc"
    and "key b \<noteq> ''asc'' \<Longrightarrow> key b \<noteq> ''desc'' \<Longrightarrow> onClick b = sort_onClick r c (key b)"
  using menu_buttons_handlers [OF assms] by (auto simp: sortOnOptions_def)

lemma menu_buttons_active:
  assumes "menu_buttons r c sort' t = Inr bs"
  shows "map active bs =
      [fieldKey sort' = ''_folderOrDocumentTitle'', fieldKey sort' = ''createdAt'',
       fieldKey sort' = ''updatedAt'', sortDirection sort' = Asc, sortDirection sort' = Desc]"
proof -
  obtain s where "selectedSortOption sort' = Some s"
    using assms menu_buttons_Inr_selected by blast
  from menu_buttons_rendered [OF this, of r c t] assms show ?thesis
    by auto
qed

lemma menu_buttons_exists:
  "selectedSortOption sort' = Some s \<Longrightarrow> \<exists>bs. menu_buttons r c sort' t = Inr bs"
  by (simp add: menu_buttons_rendered)

lemma key_in_menu:
  assumes "menu_buttons r c sort' t = Inr bs"
    and "k \<in> {''_folderOrDocumentTitle'', ''createdAt'', ''updatedAt'', ''asc'', ''desc''}"
  shows "\<exists>b\<in>set bs. key b = k"
proof -
  have "k \<in> set (map key bs)"
    using assms(2) menu_buttons_keys [OF assms(1)] by simp
  then show ?thesis by auto
qed

section \<open>The derivation of direction and field key\<close>

text \<open>
  C4. For every sort descriptor \<open>d\<close>, the derived direction is \<open>desc\<close> if and only if
  \<open>d\<close> starts with the character \<^verbatim>\<open>-\<close>; otherwise the derived direction is \<open>asc\<close>.
\<close>

theorem sortDirection_desc_iff_leading_dash:
  "(sortDirection d = Desc \<longleftrightarrow> (\<exists>r. d = CHR ''-'' # r)) \<and>
   (sortDirection d = Asc \<longleftrightarrow> \<not> (\<exists>r. d = CHR ''-'' # r))"
  by (cases d) (auto simp: sortDirection_def startsWith_def)

text \<open>
  C5. For every sort descriptor \<open>d\<close>, the derived field key is \<open>d\<close> with exactly one
  leading \<^verbatim>\<open>-\<close> removed when \<open>d\<close> starts with \<^verbatim>\<open>-\<close> (so \<^verbatim>\<open>--x\<close> gives \<^verbatim>\<open>-x\<close>), and is
  \<open>d\<close> itself otherwise (the empty descriptor included).
\<close>

theorem fieldKey_removes_one_leading_dash:
  "fieldKey [] = [] \<and>
   fieldKey (c # r) = (if c = CHR ''-'' then r else c # r) \<and>
   fieldKey ''--x'' = ''-x''"
  by (simp add: fieldKey_def startsWith_def slice_def)

section \<open>Selecting a field option\<close>

text \<open>
  C2. For every current sort descriptor (ascending or descending) and every field
  option \<open>F\<close>, clicking the button of \<open>F\<close> calls \<^verbatim>\<open>refineFolderData\<close> with the
  descriptor equal to the key of \<open>F\<close> verbatim, with no leading \<^verbatim>\<open>-\<close>, and then
  closes the menu. From \<^verbatim>\<open>-createdAt\<close>, clicking \<^verbatim>\<open>updatedAt\<close> requests
  \<^verbatim>\<open>updatedAt\<close>, not \<^verbatim>\<open>-updatedAt\<close>.
\<close>

theorem field_selection_requests_key_verbatim:
  "sort_onClick refineFolderData close v w =
     close (refineFolderData \<lparr>query = \<lparr>query_sort = v\<rparr>, updateURL = True\<rparr> w) \<and>
   sort_onClick log_refineFolderData log_close v calls =
     calls @ [RefineFolderData \<lparr>query = \<lparr>query_sort = v\<rparr>, updateURL = True\<rparr>, Close] \<and>
   (\<forall>bs. menu_buttons refineFolderData close sort' t = Inr bs \<longrightarrow>
      (\<forall>F\<in>set sortOnOptions.
         (\<exists>b\<in>set bs. key b = option_value F) \<and>
         (\<forall>b\<in>set bs. key b = option_value F \<longrightarrow>
            onClick b w =
              close (refineFolderData
                       \<lparr>query = \<lparr>query_sort = option_value F\<rparr>, updateURL = True\<rparr> w)))) \<and>
   (\<forall>bs. menu_buttons log_refineFolderData log_close ''-createdAt'' t = Inr bs \<longrightarrow>
      (\<forall>b\<in>set bs. key b = ''updatedAt'' \<longrightarrow>
         onClick b [] =
           [RefineFolderData \<lparr>query = \<lparr>query_sort = ''updatedAt''\<rparr>, updateURL = True\<rparr>,
            Close]))"
proof (intro conjI allI impI ballI)
  show "sort_onClick refineFolderData close v w =
     close (refineFolderData \<lparr>query = \<lparr>query_sort = v\<rparr>, updateURL = True\<rparr> w)"
    by (simp add: sort_onClick_def)
  show "sort_onClick log_refineFolderData log_close v calls =
     calls @ [RefineFolderData \<lparr>query = \<lparr>query_sort = v\<rparr>, updateURL = True\<rparr>, Close]"
    by (simp add: sort_onClick_def log_refineFolderData_def log_close_def)
next
  fix bs F
  assume "menu_buttons refineFolderData close sort' t = Inr bs" and "F \<in> set sortOnOptions"
  then show "\<exists>b\<in>set bs. key b = option_value F"
    by (intro key_in_menu) (auto simp: sortOnOptions_def)
next
  fix bs F b
  assume r: "menu_buttons refineFolderData close sort' t = Inr bs" "b \<in> set bs"
    and F: "F \<in> set sortOnOptions" "key b = option_value F"
  from F have "key b \<noteq> ''asc''" "key b \<noteq> ''desc''"
    by (auto simp: sortOnOptions_def)
  with r have "onClick b = sort_onClick refineFolderData close (key b)"
    by (intro menu_buttons_handler_of_key(3))
  with F show "onClick b w =
      close (refineFolderData \<lparr>query = \<lparr>query_sort = option_value F\<rparr>, updateURL = True\<rparr> w)"
    by (simp add: sort_onClick_def)
next
  fix bs b
  assume r: "menu_buttons log_refineFolderData log_close ''-createdAt'' t = Inr bs" "b \<in> set bs"
    and k: "key b = ''updatedAt''"
  from k have "key b \<noteq> ''asc''" "key b \<noteq> ''desc''"
    by simp_all
  with r have "onClick b = sort_onClick log_refineFolderData log_close (key b)"
    by (intro menu_buttons_handler_of_key(3))
  with k show "onClick b [] =
      [RefineFolderData \<lparr>query = \<lparr>query_sort = ''updatedAt''\<rparr>, updateURL = True\<rparr>, Close]"
    by (simp add: sort_onClick_def log_refineFolderData_def log_close_def)
qed

theorem field_selection_requests_key_verbatim_witness:
  "\<exists>bs b. menu_buttons log_refineFolderData log_close ''-createdAt'' (\<lambda>k. k) = Inr bs \<and>
     \<lparr>label = (\<lambda>t. Text (t ''general:updatedAt'')), option_value = ''updatedAt''\<rparr>
       \<in> set sortOnOptions \<and>
     b \<in> set bs \<and> key b = ''updatedAt'' \<and>
     onClick b [] =
       [RefineFolderData \<lparr>query = \<lparr>query_sort = ''updatedAt''\<rparr>, updateURL = True\<rparr>, Close]"
proof -
  let ?F = "\<lparr>label = (\<lambda>t. Text (t ''general:updatedAt'')), option_value = ''updatedAt''\<rparr>"
  have F: "?F \<in> set sortOnOptions"
    by (simp add: sortOnOptions_def)
  obtain bs where bs:
    "menu_buttons log_refineFolderData log_close ''-createdAt'' (\<lambda>k. k) = Inr bs"
    using menu_buttons_exists [OF selectedSortOption_desc_createdAt] by blast
  note th = field_selection_requests_key_verbatim
    [of log_refineFolderData log_close "''updatedAt''" "[]" "[]" "''-createdAt''" "\<lambda>k. k"]
  from th bs F have "\<exists>b\<in>set bs. key b = option_value ?F"
    by blast
  then obtain b where b: "b \<in> set bs" "key b = ''updatedAt''"
    by auto
  from th bs b have
    "onClick b [] =
       [RefineFolderData \<lparr>query = \<lparr>query_sort = ''updatedAt''\<rparr>, updateURL = True\<rparr>, Close]"
    by blast
  with bs F b show ?thesis by blast
qed

section \<open>Selecting a direction option\<close>

text \<open>
  C1. For every current sort descriptor, clicking the descending option calls only
  \<open>close\<close>: \<^verbatim>\<open>refineFolderData\<close> is not called, whatever it is, so no descriptor
  change is requested.
\<close>

theorem desc_option_requests_nothing:
  "order_onClick refineFolderData close sort' Desc w = close w \<and>
   order_onClick log_refineFolderData log_close sort' Desc calls = calls @ [Close] \<and>
   (\<forall>bs. menu_buttons refineFolderData close sort' t = Inr bs \<longrightarrow>
      (\<forall>b\<in>set bs. key b = ''desc'' \<longrightarrow> onClick b w = close w))"
proof (intro conjI allI impI ballI)
  show "order_onClick refineFolderData close sort' Desc w = close w"
    by (simp add: order_onClick_def)
  show "order_onClick log_refineFolderData log_close sort' Desc calls = calls @ [Close]"
    by (simp add: order_onClick_def log_close_def)
next
  fix bs b
  assume "menu_buttons refineFolderData close sort' t = Inr bs" "b \<in> set bs" "key b = ''desc''"
  then have "onClick b = order_onClick refineFolderData close sort' Desc"
    by (rule menu_buttons_handler_of_key(2))
  then show "onClick b w = close w"
    by (simp add: order_onClick_def)
qed

theorem desc_option_requests_nothing_witness:
  "\<exists>bs b. menu_buttons log_refineFolderData log_close ''createdAt'' (\<lambda>k. k) = Inr bs \<and>
     b \<in> set bs \<and> key b = ''desc'' \<and> onClick b [] = [Close]"
proof -
  obtain bs where bs:
    "menu_buttons log_refineFolderData log_close ''createdAt'' (\<lambda>k. k) = Inr bs"
    using menu_buttons_exists [OF selectedSortOption_createdAt] by blast
  obtain b where b: "b \<in> set bs" "key b = ''desc''"
    using key_in_menu [OF bs, of "''desc''"] by auto
  have "onClick b [] = log_close []"
    using desc_option_requests_nothing
      [of log_refineFolderData log_close "''createdAt''" "[]" "[]" "\<lambda>k. k"] bs b
    by blast
  then show ?thesis
    using bs b by (auto simp: log_close_def)
qed

text \<open>
  C9. For every current descriptor \<open>d\<close>, descending ones included, clicking the
  ascending option requests the descriptor \<^verbatim>\<open>-\<close> prepended to \<open>d\<close>. From
  \<^verbatim>\<open>-createdAt\<close> the request is \<^verbatim>\<open>--createdAt\<close>, and from a descriptor with \<open>n\<close>
  leading dashes it is the same descriptor with \<open>n + 1\<close> of them.
\<close>

theorem asc_option_prepends_dash:
  "order_onClick refineFolderData close sort' Asc w =
     close (refineFolderData \<lparr>query = \<lparr>query_sort = CHR ''-'' # sort'\<rparr>, updateURL = True\<rparr> w) \<and>
   order_onClick log_refineFolderData log_close sort' Asc calls =
     calls @ [RefineFolderData \<lparr>query = \<lparr>query_sort = CHR ''-'' # sort'\<rparr>, updateURL = True\<rparr>,
              Close] \<and>
   order_onClick log_refineFolderData log_close ''-createdAt'' Asc [] =
     [RefineFolderData \<lparr>query = \<lparr>query_sort = ''--createdAt''\<rparr>, updateURL = True\<rparr>, Close] \<and>
   order_onClick log_refineFolderData log_close (replicate n CHR ''-'' @ d) Asc [] =
     [RefineFolderData \<lparr>query = \<lparr>query_sort = replicate (Suc n) CHR ''-'' @ d\<rparr>,
                        updateURL = True\<rparr>, Close] \<and>
   (\<forall>bs. menu_buttons refineFolderData close sort' t = Inr bs \<longrightarrow>
      (\<forall>b\<in>set bs. key b = ''asc'' \<longrightarrow>
         onClick b w =
           close (refineFolderData
                    \<lparr>query = \<lparr>query_sort = CHR ''-'' # sort'\<rparr>, updateURL = True\<rparr> w)))"
proof (intro conjI allI impI ballI)
  fix bs b
  assume "menu_buttons refineFolderData close sort' t = Inr bs" "b \<in> set bs" "key b = ''asc''"
  then have "onClick b = order_onClick refineFolderData close sort' Asc"
    by (rule menu_buttons_handler_of_key(1))
  then show "onClick b w =
      close (refineFolderData \<lparr>query = \<lparr>query_sort = CHR ''-'' # sort'\<rparr>, updateURL = True\<rparr> w)"
    by (simp add: order_onClick_def)
qed (simp_all add: order_onClick_def log_refineFolderData_def log_close_def)

theorem asc_option_prepends_dash_witness:
  "\<exists>bs b. menu_buttons log_refineFolderData log_close ''-createdAt'' (\<lambda>k. k) = Inr bs \<and>
     b \<in> set bs \<and> key b = ''asc'' \<and>
     onClick b [] =
       [RefineFolderData \<lparr>query = \<lparr>query_sort = ''--createdAt''\<rparr>, updateURL = True\<rparr>, Close]"
proof -
  obtain bs where bs:
    "menu_buttons log_refineFolderData log_close ''-createdAt'' (\<lambda>k. k) = Inr bs"
    using menu_buttons_exists [OF selectedSortOption_desc_createdAt] by blast
  obtain b where b: "b \<in> set bs" "key b = ''asc''"
    using key_in_menu [OF bs, of "''asc''"] by auto
  have "onClick b [] =
      log_close (log_refineFolderData
        \<lparr>query = \<lparr>query_sort = CHR ''-'' # ''-createdAt''\<rparr>, updateURL = True\<rparr> [])"
    using asc_option_prepends_dash
      [of log_refineFolderData log_close "''-createdAt''" "[]" "[]" 0 "[]" "\<lambda>k. k"] bs b
    by blast
  then show ?thesis
    using bs b by (auto simp: log_close_def log_refineFolderData_def)
qed

text \<open>
  C3. The claim is that with the descriptor \<^verbatim>\<open>title\<close>, already ascending, clicking
  the ascending option changes nothing. The handler evaluated there: it requests
  \<^verbatim>\<open>-title\<close>, which line 50 reads as descending. The same on the descriptor
  \<^verbatim>\<open>createdAt\<close>, which the component renders: the ascending button is the active
  one, and clicking it requests \<^verbatim>\<open>-createdAt\<close>, while the descending button only
  closes the menu.
\<close>

theorem asc_option_on_ascending_descriptor_requests_descending:
  "sortDirection ''title'' = Asc \<and>
   order_onClick log_refineFolderData log_close ''title'' Asc [] =
     [RefineFolderData \<lparr>query = \<lparr>query_sort = ''-title''\<rparr>, updateURL = True\<rparr>, Close] \<and>
   sortDirection ''-title'' = Desc \<and>
   sortDirection ''createdAt'' = Asc \<and>
   map (\<lambda>b. (key b, active b, onClick b []))
     (case menu_buttons log_refineFolderData log_close ''createdAt'' (\<lambda>k. k) of
        Inl e \<Rightarrow> [] | Inr bs \<Rightarrow> drop 3 bs) =
     [(''asc'', True,
       [RefineFolderData \<lparr>query = \<lparr>query_sort = ''-createdAt''\<rparr>, updateURL = True\<rparr>,
        Close]),
      (''desc'', False, [Close])]"
  by (simp add: menu_buttons_rendered [OF selectedSortOption_createdAt] sortDirection_def
      startsWith_def order_onClick_def log_refineFolderData_def log_close_def)

text \<open>
  C8. Every click, on any field option or on either direction option, ends with
  exactly one call of the \<open>close\<close> callback, made after any call of the mutator; on
  the descending option it is the only call.
\<close>

theorem every_click_closes_the_menu:
  "(\<exists>pre. sort_onClick log_refineFolderData log_close v calls = calls @ pre @ [Close] \<and>
      Close \<notin> set pre) \<and>
   (\<exists>pre. order_onClick log_refineFolderData log_close sort' ov calls = calls @ pre @ [Close] \<and>
      Close \<notin> set pre) \<and>
   order_onClick log_refineFolderData log_close sort' Desc calls = calls @ [Close] \<and>
   (\<forall>bs. menu_buttons log_refineFolderData log_close sort' t = Inr bs \<longrightarrow>
      (\<forall>b\<in>set bs. \<exists>pre. onClick b calls = calls @ pre @ [Close] \<and> Close \<notin> set pre))"
proof -
  have a: "\<exists>pre. sort_onClick log_refineFolderData log_close x calls = calls @ pre @ [Close] \<and>
      Close \<notin> set pre" for x
    by (simp add: sort_onClick_def log_refineFolderData_def log_close_def)
  have b: "\<exists>pre. order_onClick log_refineFolderData log_close sort' x calls =
      calls @ pre @ [Close] \<and> Close \<notin> set pre" for x
    by (cases x) (simp_all add: order_onClick_def log_refineFolderData_def log_close_def)
  have c: "order_onClick log_refineFolderData log_close sort' Desc calls = calls @ [Close]"
    by (simp add: order_onClick_def log_close_def)
  have d: "\<exists>pre. onClick x calls = calls @ pre @ [Close] \<and> Close \<notin> set pre"
    if "menu_buttons log_refineFolderData log_close sort' t = Inr bs" and "x \<in> set bs"
    for bs x
    using menu_buttons_handlers [OF that] a b by metis
  from a b c d show ?thesis by blast
qed

theorem every_click_closes_the_menu_witness:
  "\<exists>bs b pre. menu_buttons log_refineFolderData log_close ''-createdAt'' (\<lambda>k. k) = Inr bs \<and>
     b \<in> set bs \<and> key b = ''desc'' \<and> onClick b [] = [] @ pre @ [Close] \<and> Close \<notin> set pre"
proof -
  obtain bs where bs:
    "menu_buttons log_refineFolderData log_close ''-createdAt'' (\<lambda>k. k) = Inr bs"
    using menu_buttons_exists [OF selectedSortOption_desc_createdAt] by blast
  obtain b where b: "b \<in> set bs" "key b = ''desc''"
    using key_in_menu [OF bs, of "''desc''"] by auto
  have "\<exists>pre. onClick b [] = [] @ pre @ [Close] \<and> Close \<notin> set pre"
    using every_click_closes_the_menu [of "''x''" "[]" "''-createdAt''" Desc "\<lambda>k. k"] bs b
    by blast
  then show ?thesis
    using bs b by blast
qed

text \<open>
  C10. Every call of \<^verbatim>\<open>refineFolderData\<close> that a click makes, from a field button
  or from the ascending button, passes \<^verbatim>\<open>updateURL: true\<close>; both of these handlers do
  make such a call.
\<close>

theorem every_refine_call_updates_url:
  "(\<forall>opts. RefineFolderData opts \<in> set (sort_onClick log_refineFolderData log_close v []) \<longrightarrow>
      updateURL opts) \<and>
   (\<forall>opts. RefineFolderData opts \<in> set (order_onClick log_refineFolderData log_close sort' ov [])
      \<longrightarrow> updateURL opts) \<and>
   (\<exists>opts. RefineFolderData opts \<in> set (sort_onClick log_refineFolderData log_close v [])) \<and>
   (\<exists>opts. RefineFolderData opts
      \<in> set (order_onClick log_refineFolderData log_close sort' Asc [])) \<and>
   (\<forall>bs. menu_buttons log_refineFolderData log_close sort' t = Inr bs \<longrightarrow>
      (\<forall>b\<in>set bs. \<forall>opts. RefineFolderData opts \<in> set (onClick b []) \<longrightarrow> updateURL opts))"
proof -
  have a: "RefineFolderData opts \<in> set (sort_onClick log_refineFolderData log_close x []) \<Longrightarrow>
      updateURL opts" for x opts
    by (auto simp: sort_onClick_def log_refineFolderData_def log_close_def)
  have b: "RefineFolderData opts \<in> set (order_onClick log_refineFolderData log_close sort' x [])
      \<Longrightarrow> updateURL opts" for x opts
    by (cases x) (auto simp: order_onClick_def log_refineFolderData_def log_close_def)
  have c: "\<exists>opts. RefineFolderData opts \<in> set (sort_onClick log_refineFolderData log_close v [])"
    by (simp add: sort_onClick_def log_refineFolderData_def log_close_def)
  have d: "\<exists>opts. RefineFolderData opts
      \<in> set (order_onClick log_refineFolderData log_close sort' Asc [])"
    by (simp add: order_onClick_def log_refineFolderData_def log_close_def)
  have e: "updateURL opts"
    if "menu_buttons log_refineFolderData log_close sort' t = Inr bs" and "x \<in> set bs"
      and "RefineFolderData opts \<in> set (onClick x [])"
    for bs x opts
    using menu_buttons_handlers [OF that(1,2)] that(3) a b by metis
  from a b c d e show ?thesis by blast
qed

theorem every_refine_call_updates_url_witness:
  "\<exists>bs b opts. menu_buttons log_refineFolderData log_close ''createdAt'' (\<lambda>k. k) = Inr bs \<and>
     b \<in> set bs \<and> key b = ''updatedAt'' \<and> RefineFolderData opts \<in> set (onClick b []) \<and>
     updateURL opts"
proof -
  obtain bs where bs:
    "menu_buttons log_refineFolderData log_close ''createdAt'' (\<lambda>k. k) = Inr bs"
    using menu_buttons_exists [OF selectedSortOption_createdAt] by blast
  obtain b where b: "b \<in> set bs" "key b = ''updatedAt''"
    using key_in_menu [OF bs, of "''updatedAt''"] by auto
  have "onClick b = sort_onClick log_refineFolderData log_close (key b)"
    using menu_buttons_handler_of_key(3) [OF bs b(1)] b(2) by simp
  then obtain opts where opts: "RefineFolderData opts \<in> set (onClick b [])"
    by (auto simp: sort_onClick_def log_refineFolderData_def log_close_def)
  have "updateURL opts"
    using every_refine_call_updates_url [of "''x''" "''createdAt''" Asc "\<lambda>k. k"] bs b(1) opts
    by blast
  with bs b opts show ?thesis by blast
qed

section \<open>Descriptors that match no field option\<close>

text \<open>
  C6, as claimed: with a field key that matches no field option, the component renders
  with nothing selected instead of failing on an undefined reference. It does not: the
  descriptor \<^verbatim>\<open>--createdAt\<close> has the field key \<^verbatim>\<open>-createdAt\<close>, the lookup gives
  \<^verbatim>\<open>undefined\<close>, and the component throws.
\<close>

theorem unmatched_descriptor_fails_to_render:
  "fieldKey ''--createdAt'' = ''-createdAt'' \<and>
   selectedSortOption ''--createdAt'' = None \<and>
   SortByPill log_refineFolderData ''--createdAt'' (\<lambda>k. k) = Inl TypeError"
  by (simp add: selectedSortOption_cases SortByPill_def property_def fieldKey_def
      startsWith_def slice_def)

text \<open>
  C6, amended. The lookup itself never fails: it gives \<^verbatim>\<open>undefined\<close> exactly when the
  field key is none of the three option keys. Building the trigger label then throws a
  \<^verbatim>\<open>TypeError\<close>; the component returns an element exactly when the field key is one
  of the three option keys.
\<close>

theorem unmatched_field_key_throws_at_trigger_label:
  "(selectedSortOption sort' = None \<longleftrightarrow> fieldKey sort' \<notin> option_value ` set sortOnOptions) \<and>
   (SortByPill refineFolderData sort' t = Inl TypeError
      \<longleftrightarrow> fieldKey sort' \<notin> option_value ` set sortOnOptions) \<and>
   ((\<exists>p. SortByPill refineFolderData sort' t = Inr p)
      \<longleftrightarrow> fieldKey sort' \<in> option_value ` set sortOnOptions)"
proof -
  have "SortByPill refineFolderData sort' t = Inl TypeError
      \<longleftrightarrow> selectedSortOption sort' = None"
    by (cases "selectedSortOption sort'") (simp_all add: SortByPill_def property_def)
  moreover have "(\<exists>p. SortByPill refineFolderData sort' t = Inr p)
      \<longleftrightarrow> selectedSortOption sort' \<noteq> None"
    by (cases "selectedSortOption sort'") (simp_all add: SortByPill_def property_def)
  ultimately show ?thesis
    using selectedSortOption_None_iff [of sort'] by simp
qed

text \<open>
  C7, as claimed: for every descriptor exactly one of the three field options is
  selected. For the descriptor \<^verbatim>\<open>title\<close> no field option matches, none is selected
  and the menu is never rendered.
\<close>

theorem unmatched_descriptors_select_no_field_option:
  "filter (\<lambda>opt. option_value opt = fieldKey ''title'') sortOnOptions = [] \<and>
   selectedSortOption ''title'' = None \<and>
   menu_buttons log_refineFolderData log_close ''title'' (\<lambda>k. k) = Inl TypeError"
  by (simp add: menu_buttons_error selectedSortOption_cases fieldKey_def startsWith_def)
     (simp add: sortOnOptions_def)

text \<open>
  C7, amended. For every descriptor exactly one of the two direction options matches,
  and it is the selected one. The field options that match are exactly one when the
  field key is one of the three option keys and none otherwise. Whenever the menu is
  rendered, exactly one field button and exactly one direction button are active, and
  the active flags depend on the descriptor alone, not on the collaborators or the
  translation.
\<close>

theorem selection_is_derived_from_descriptor:
  "length (filter (\<lambda>opt. option_value opt = sortDirection sort') orderOnOptions) = 1 \<and>
   map_option option_value (selectedOrderOption sort') = Some (sortDirection sort') \<and>
   length (filter (\<lambda>opt. option_value opt = fieldKey sort') sortOnOptions) =
     (if fieldKey sort' \<in> option_value ` set sortOnOptions then 1 else 0) \<and>
   map_option option_value (selectedSortOption sort') =
     (if fieldKey sort' \<in> option_value ` set sortOnOptions then Some (fieldKey sort') else None) \<and>
   (\<forall>bs. menu_buttons refineFolderData close sort' t = Inr bs \<longrightarrow>
      length (filter active (take 3 bs)) = 1 \<and>
      length (filter active (drop 3 bs)) = 1 \<and>
      (\<forall>(refineFolderData' :: refine_options \<Rightarrow> 'v \<Rightarrow> 'v) close' t' bs'.
         menu_buttons refineFolderData' close' sort' t' = Inr bs' \<longrightarrow>
         map active bs' = map active bs))"
proof (intro conjI allI impI)
  show "length (filter (\<lambda>opt. option_value opt = sortDirection sort') orderOnOptions) = 1"
    by (cases "sortDirection sort'") (simp_all add: orderOnOptions_def)
  show "map_option option_value (selectedOrderOption sort') = Some (sortDirection sort')"
    by (cases "sortDirection sort'") (simp_all add: selectedOrderOption_eq orderOnOptions_def)
  show "length (filter (\<lambda>opt. option_value opt = fieldKey sort') sortOnOptions) =
     (if fieldKey sort' \<in> option_value ` set sortOnOptions then 1 else 0)"
    by (auto simp: sortOnOptions_def)
  show "map_option option_value (selectedSortOption sort') =
     (if fieldKey sort' \<in> option_value ` set sortOnOptions then Some (fieldKey sort') else None)"
    by (auto simp: selectedSortOption_cases sortOnOptions_def)
next
  fix bs
  assume r: "menu_buttons refineFolderData close sort' t = Inr bs"
  then obtain s where s: "selectedSortOption sort' = Some s"
    using menu_buttons_Inr_selected by blast
  have k: "fieldKey sort' = ''_folderOrDocumentTitle'' \<or> fieldKey sort' = ''createdAt'' \<or>
      fieldKey sort' = ''updatedAt''"
    using s by (simp add: selectedSortOption_cases split: if_splits)
  note e = menu_buttons_rendered [OF s, of refineFolderData close t]
  show "length (filter active (take 3 bs)) = 1"
    using r e k by auto
  show "length (filter active (drop 3 bs)) = 1"
    using r e by (cases "sortDirection sort'") auto
next
  fix bs t' bs' and refineFolderData' :: "refine_options \<Rightarrow> 'v \<Rightarrow> 'v" and close' :: "'v \<Rightarrow> 'v"
  assume "menu_buttons refineFolderData close sort' t = Inr bs"
    and "menu_buttons refineFolderData' close' sort' t' = Inr bs'"
  then show "map active bs' = map active bs"
    by (simp add: menu_buttons_active)
qed

theorem selection_is_derived_from_descriptor_witness:
  "\<exists>bs. menu_buttons log_refineFolderData log_close ''-createdAt'' (\<lambda>k. k) = Inr bs \<and>
     length (filter active (take 3 bs)) = 1 \<and> length (filter active (drop 3 bs)) = 1"
proof -
  obtain bs where bs:
    "menu_buttons log_refineFolderData log_close ''-createdAt'' (\<lambda>k. k) = Inr bs"
    using menu_buttons_exists [OF selectedSortOption_desc_createdAt] by blast
  have "length (filter active (take 3 bs)) = 1 \<and> length (filter active (drop 3 bs)) = 1"
    using selection_is_derived_from_descriptor
      [of "''-createdAt''" log_refineFolderData log_close "\<lambda>k. k"] bs
    by blast
  with bs show ?thesis by blast
qed

end
